theory Spec2Isabelle
  imports Complex_Main "HOL-Library.AList" "HOL-Library.Monad_Syntax"
begin

section \<open>JavaScript values\<close>

text \<open>
  JavaScript numbers are modelled as exact reals, not as IEEE doubles: the constants of
  the source are the decimal fractions as written, and every bound and equality proved
  below is one of the exact arithmetic. A value of type
  \<open>any\<close> (what \<open>JSON.parse\<close> returns) is a \<open>json\<close>; an object is the list of its
  properties in insertion order, read through \<open>map_of\<close> and written through
  \<open>AList.update\<close>, so that a key is never visible twice (the code modelled here reads
  properties by name and never enumerates them, so the order is not observed).
\<close>

datatype json =
    JNull
  | JBool bool
  | JNum real
  | JStr string
  | JArr "json list"
  | JObj "(string \<times> json) list"

text \<open>Decimal rendering of an integer, as a template literal interpolates it.\<close>

fun js_string_of_nat :: "nat \<Rightarrow> string" where
  "js_string_of_nat n =
     (if n < 10 then [''0123456789'' ! n]
      else js_string_of_nat (n div 10) @ [''0123456789'' ! (n mod 10)])"

declare js_string_of_nat.simps [simp del]

definition js_string_of_int :: "int \<Rightarrow> string" where
  "js_string_of_int i =
     (if i < 0 then CHR ''-'' # js_string_of_nat (nat (- i)) else js_string_of_nat (nat i))"


text \<open>\<open>Number.isInteger\<close>, the test behind zod's \<open>.int()\<close>.\<close>

definition isInteger :: "real \<Rightarrow> bool" where
  "isInteger r = (of_int \<lfloor>r\<rfloor> = r)"

text \<open>
  \<open>String.prototype.indexOf\<close> and \<open>lastIndexOf\<close> for a one-character needle
  (\<open>-1\<close> when absent), and \<open>slice\<close> with its treatment of negative and oversized
  positions.
\<close>

fun indexOf :: "string \<Rightarrow> char \<Rightarrow> int" where
  "indexOf [] c = -1"
| "indexOf (d # ds) c =
     (if d = c then 0 else (let i = indexOf ds c in if i < 0 then -1 else i + 1))"

fun lastIndexOf :: "string \<Rightarrow> char \<Rightarrow> int" where
  "lastIndexOf [] c = -1"
| "lastIndexOf (d # ds) c =
     (let i = lastIndexOf ds c in
      if 0 \<le> i then i + 1 else if d = c then 0 else -1)"

definition slice :: "string \<Rightarrow> int \<Rightarrow> int \<Rightarrow> string" where
  "slice s a b =
     (let len = int (length s);
          from = (if a < 0 then max (len + a) 0 else min a len);
          to = (if b < 0 then max (len + b) 0 else min b len)
      in take (nat (to - from)) (drop (nat from) s))"

text \<open>
  Truthiness of a \<open>string | null\<close>: \<open>null\<close> and the empty string are falsy.
\<close>

fun truthy_str :: "string option \<Rightarrow> bool" where
  "truthy_str None = False"
| "truthy_str (Some s) = (s \<noteq> [])"

text \<open>
  \<open>typeof v === 'object'\<close> for a non-null \<open>v\<close>: objects and arrays. Spreading an
  array into an object literal gives its elements under their indices.
\<close>

fun is_object_like :: "json \<Rightarrow> bool" where
  "is_object_like (JObj kvs) = True"
| "is_object_like (JArr xs) = True"
| "is_object_like v = False"

fun spread :: "json \<Rightarrow> (string \<times> json) list" where
  "spread (JObj kvs) = kvs"
| "spread (JArr xs) = zip (map js_string_of_nat [0..<length xs]) xs"
| "spread v = []"

text \<open>
  Reading the property \<open>k\<close> of an object-like value; \<open>None\<close> is \<open>undefined\<close>. The
  source reads \<open>candidates\<close> and \<open>bbox\<close> only, which an array never has.
\<close>

fun get_prop :: "json \<Rightarrow> string \<Rightarrow> json option" where
  "get_prop (JObj kvs) k = map_of kvs k"
| "get_prop v k = None"

section \<open>Contracts (types/contracts.ts)\<close>

text \<open>
  \<open>ArchType\<close> and \<open>Usage\<close> are unions of string literals: at run time a profile
  carries plain strings, and the ranking schema is what checks them.
\<close>

type_synonym ArchType = string
type_synonym Usage = string

record BBox =
  bbox_x :: real
  bbox_y :: real
  bbox_w :: real
  bbox_h :: real

text \<open>
  \<open>notes?: string | null\<close> has three states: absent (\<open>None\<close>), \<open>null\<close>
  (\<open>Some None\<close>) and a string.
\<close>

record VisionCandidate =
  vc_raw_label :: string
  vc_brand :: "string option"
  vc_model :: "string option"
  vc_confidence :: real
  vc_bbox :: "BBox option"
  vc_notes :: "string option option"

record ImageQuality =
  iq_lighting :: string
  iq_blur :: string
  iq_occlusion :: string

record ErrorEntry =
  err_code :: string
  err_message :: string

record VisionResult =
  vr_request_id :: string
  vr_candidates :: "VisionCandidate list"
  vr_image_quality :: ImageQuality
  vr_errors :: "ErrorEntry list"

record ShoeSpecs =
  terrain :: "string option"
  stability :: "string option"
  drop_mm :: "real option"
  weight_g :: "real option"
  cushion :: "string option"

record RankedRecommendation =
  rk_model :: string
  rk_match_score :: real
  rk_why :: "string list"
  rk_specs :: ShoeSpecs
  rk_tradeoffs :: "string list"
  rk_confidence :: real

record AvoidEntry =
  av_model :: string
  av_reason :: string
  av_confidence :: real

record Profile =
  arch_type :: ArchType
  usage :: Usage
  weekly_mileage :: real

record RecommendationsResult =
  rr_request_id :: string
  rr_profile_used :: Profile
  rr_ranked :: "RankedRecommendation list"
  rr_avoid :: "AvoidEntry list"
  rr_fallback_needed :: bool
  rr_errors :: "ErrorEntry list"

section \<open>Geometry normalizer (backend/src/services/openai.ts)\<close>

definition clamp01 :: "real \<Rightarrow> real" where
  "clamp01 v = max 0 (min 1 v)"

text \<open>\<open>null\<close> is \<open>None\<close>; \<open>if (!bbox) return null\<close> is the first case.\<close>

fun normalizeBbox :: "BBox option \<Rightarrow> BBox option" where
  "normalizeBbox None = None"
| "normalizeBbox (Some b) =
     (let x = clamp01 (bbox_x b);
          y = clamp01 (bbox_y b);
          w = max 0.01 (min (clamp01 (bbox_w b)) (1 - x));
          h = max 0.01 (min (clamp01 (bbox_h b)) (1 - y))
      in Some \<lparr>bbox_x = x, bbox_y = y, bbox_w = w, bbox_h = h\<rparr>)"

definition partial_bbox_error :: "nat \<Rightarrow> ErrorEntry" where
  "partial_bbox_error missingBboxCount =
     \<lparr>err_code = ''VISION_PARTIAL_BBOX'',
      err_message = js_string_of_nat missingBboxCount
        @ '' candidate(s) missing bbox due to ambiguity or occlusion.''\<rparr>"

definition normalizeVisionResult :: "VisionResult \<Rightarrow> VisionResult" where
  "normalizeVisionResult result =
     (let cands = map (\<lambda>candidate. candidate\<lparr>vc_bbox := normalizeBbox (vc_bbox candidate)\<rparr>)
                    (vr_candidates result);
          missingBboxCount = length (filter (\<lambda>candidate. vc_bbox candidate = None) cands);
          errs = vr_errors result
                   @ (if missingBboxCount > 0 then [partial_bbox_error missingBboxCount] else [])
      in result\<lparr>vr_candidates := cands, vr_errors := errs\<rparr>)"

section \<open>Patch step\<close>

text \<open>
  \<open>{ ...candidate, bbox: candidate.bbox ?? null }\<close>: the properties of the candidate
  in their order, \<open>bbox\<close> overwritten in place or appended.
\<close>

definition patch_candidate :: "json \<Rightarrow> json" where
  "patch_candidate candidate =
     (if \<not> is_object_like candidate then candidate
      else JObj (AList.update ''bbox''
                   (case get_prop candidate ''bbox'' of None \<Rightarrow> JNull | Some v \<Rightarrow> v)
                   (spread candidate)))"

definition patchVisionPayload :: "json \<Rightarrow> json" where
  "patchVisionPayload raw =
     (if \<not> is_object_like raw then raw
      else (let patched = spread raw in
            case map_of patched ''candidates'' of
              Some (JArr cs) \<Rightarrow>
                JObj (AList.update ''candidates'' (JArr (map patch_candidate cs)) patched)
            | _ \<Rightarrow> JObj patched))"

section \<open>Output schema validator (zod)\<close>

text \<open>
  A zod schema is a function from an unknown value to the typed value it accepts
  (\<open>safeParse\<close>: \<open>Some data\<close> for \<open>success\<close>, \<open>None\<close> for a failure). An object
  schema reads the keys it names and drops every other key; a key that is absent reaches
  its schema as \<open>undefined\<close>, which only \<open>.optional()\<close> accepts.
\<close>

definition z_string :: "json \<Rightarrow> string option" where
  "z_string j = (case j of JStr s \<Rightarrow> Some s | _ \<Rightarrow> None)"

definition z_number :: "json \<Rightarrow> real option" where
  "z_number j = (case j of JNum r \<Rightarrow> Some r | _ \<Rightarrow> None)"

definition z_boolean :: "json \<Rightarrow> bool option" where
  "z_boolean j = (case j of JBool b \<Rightarrow> Some b | _ \<Rightarrow> None)"

definition z_refine :: "('a \<Rightarrow> bool) \<Rightarrow> (json \<Rightarrow> 'a option) \<Rightarrow> json \<Rightarrow> 'a option" where
  "z_refine P s j = (case s j of Some v \<Rightarrow> if P v then Some v else None | None \<Rightarrow> None)"

definition z_min :: "real \<Rightarrow> (json \<Rightarrow> real option) \<Rightarrow> json \<Rightarrow> real option" where
  "z_min lo = z_refine (\<lambda>r. lo \<le> r)"

definition z_max :: "real \<Rightarrow> (json \<Rightarrow> real option) \<Rightarrow> json \<Rightarrow> real option" where
  "z_max hi = z_refine (\<lambda>r. r \<le> hi)"

definition z_int :: "(json \<Rightarrow> real option) \<Rightarrow> json \<Rightarrow> real option" where
  "z_int = z_refine isInteger"

definition z_enum :: "string list \<Rightarrow> json \<Rightarrow> string option" where
  "z_enum vals j = (case j of JStr s \<Rightarrow> if List.member vals s then Some s else None | _ \<Rightarrow> None)"

definition z_nullable :: "(json \<Rightarrow> 'a option) \<Rightarrow> json \<Rightarrow> 'a option option" where
  "z_nullable s j = (case j of JNull \<Rightarrow> Some None | _ \<Rightarrow> map_option Some (s j))"

definition z_array :: "(json \<Rightarrow> 'a option) \<Rightarrow> json \<Rightarrow> 'a list option" where
  "z_array s j = (case j of JArr xs \<Rightarrow> those (map s xs) | _ \<Rightarrow> None)"

definition z_array_min :: "nat \<Rightarrow> (json \<Rightarrow> 'a list option) \<Rightarrow> json \<Rightarrow> 'a list option" where
  "z_array_min n = z_refine (\<lambda>xs. n \<le> length xs)"

definition z_array_max :: "nat \<Rightarrow> (json \<Rightarrow> 'a list option) \<Rightarrow> json \<Rightarrow> 'a list option" where
  "z_array_max n = z_refine (\<lambda>xs. length xs \<le> n)"

definition z_object :: "((string \<times> json) list \<Rightarrow> 'a option) \<Rightarrow> json \<Rightarrow> 'a option" where
  "z_object f j = (case j of JObj kvs \<Rightarrow> f kvs | _ \<Rightarrow> None)"

definition z_required :: "(string \<times> json) list \<Rightarrow> string \<Rightarrow> (json \<Rightarrow> 'a option) \<Rightarrow> 'a option" where
  "z_required kvs k s = (case map_of kvs k of None \<Rightarrow> None | Some v \<Rightarrow> s v)"

definition z_optional :: "(string \<times> json) list \<Rightarrow> string \<Rightarrow> (json \<Rightarrow> 'a option) \<Rightarrow> 'a option option" where
  "z_optional kvs k s = (case map_of kvs k of None \<Rightarrow> Some None | Some v \<Rightarrow> map_option Some (s v))"

definition error_entry_schema :: "json \<Rightarrow> ErrorEntry option" where
  "error_entry_schema = z_object (\<lambda>kvs. do {
     c \<leftarrow> z_required kvs ''code'' z_string;
     m \<leftarrow> z_required kvs ''message'' z_string;
     Some \<lparr>err_code = c, err_message = m\<rparr> })"

definition bbox_schema :: "json \<Rightarrow> BBox option" where
  "bbox_schema = z_object (\<lambda>kvs. do {
     x \<leftarrow> z_required kvs ''x'' (z_max 1 (z_min 0 z_number));
     y \<leftarrow> z_required kvs ''y'' (z_max 1 (z_min 0 z_number));
     w \<leftarrow> z_required kvs ''w'' (z_max 1 (z_min 0 z_number));
     h \<leftarrow> z_required kvs ''h'' (z_max 1 (z_min 0 z_number));
     Some \<lparr>bbox_x = x, bbox_y = y, bbox_w = w, bbox_h = h\<rparr> })"

definition candidate_schema :: "json \<Rightarrow> VisionCandidate option" where
  "candidate_schema = z_object (\<lambda>kvs. do {
     raw_label \<leftarrow> z_required kvs ''raw_label'' z_string;
     brand \<leftarrow> z_required kvs ''brand'' (z_nullable z_string);
     model \<leftarrow> z_required kvs ''model'' (z_nullable z_string);
     confidence \<leftarrow> z_required kvs ''confidence'' (z_max 1 (z_min 0 z_number));
     bbox \<leftarrow> z_required kvs ''bbox'' (z_nullable bbox_schema);
     notes \<leftarrow> z_optional kvs ''notes'' (z_nullable z_string);
     Some \<lparr>vc_raw_label = raw_label, vc_brand = brand, vc_model = model,
           vc_confidence = confidence, vc_bbox = bbox, vc_notes = notes\<rparr> })"

definition image_quality_schema :: "json \<Rightarrow> ImageQuality option" where
  "image_quality_schema = z_object (\<lambda>kvs. do {
     lighting \<leftarrow> z_required kvs ''lighting'' (z_enum [''good'', ''ok'', ''bad'']);
     blur \<leftarrow> z_required kvs ''blur'' (z_enum [''none'', ''mild'', ''high'']);
     occlusion \<leftarrow> z_required kvs ''occlusion'' (z_enum [''none'', ''some'', ''heavy'']);
     Some \<lparr>iq_lighting = lighting, iq_blur = blur, iq_occlusion = occlusion\<rparr> })"

text \<open>
  \<open>VisionSchema\<close>, with the module constant \<open>VISION_MAX_CANDIDATES\<close> as its first
  argument.
\<close>

definition VisionSchema :: "nat \<Rightarrow> json \<Rightarrow> VisionResult option" where
  "VisionSchema max_candidates = z_object (\<lambda>kvs. do {
     request_id \<leftarrow> z_required kvs ''request_id'' z_string;
     candidates \<leftarrow> z_required kvs ''candidates''
                     (z_array_max max_candidates (z_array candidate_schema));
     image_quality \<leftarrow> z_required kvs ''image_quality'' image_quality_schema;
     errors \<leftarrow> z_required kvs ''errors'' (z_array error_entry_schema);
     Some \<lparr>vr_request_id = request_id, vr_candidates = candidates,
           vr_image_quality = image_quality, vr_errors = errors\<rparr> })"

text \<open>
  The shape the patch step is for: the detection schema with the \<open>bbox\<close> key of a
  candidate allowed to be absent (\<open>.nullable().optional()\<close>, as the earlier copy of the
  module declares it), an absent \<open>bbox\<close> read as \<open>null\<close>. It states the hypothesis
  "conforms to the schema except that some candidates lack the bbox key"; the code
  validates with \<open>VisionSchema\<close> only.
\<close>

definition candidate_schema_bbox_optional :: "json \<Rightarrow> VisionCandidate option" where
  "candidate_schema_bbox_optional = z_object (\<lambda>kvs. do {
     raw_label \<leftarrow> z_required kvs ''raw_label'' z_string;
     brand \<leftarrow> z_required kvs ''brand'' (z_nullable z_string);
     model \<leftarrow> z_required kvs ''model'' (z_nullable z_string);
     confidence \<leftarrow> z_required kvs ''confidence'' (z_max 1 (z_min 0 z_number));
     bbox \<leftarrow> z_optional kvs ''bbox'' (z_nullable bbox_schema);
     notes \<leftarrow> z_optional kvs ''notes'' (z_nullable z_string);
     Some \<lparr>vc_raw_label = raw_label, vc_brand = brand, vc_model = model,
           vc_confidence = confidence,
           vc_bbox = (case bbox of None \<Rightarrow> None | Some b \<Rightarrow> b), vc_notes = notes\<rparr> })"

definition VisionSchema_bbox_optional :: "nat \<Rightarrow> json \<Rightarrow> VisionResult option" where
  "VisionSchema_bbox_optional max_candidates = z_object (\<lambda>kvs. do {
     request_id \<leftarrow> z_required kvs ''request_id'' z_string;
     candidates \<leftarrow> z_required kvs ''candidates''
                     (z_array_max max_candidates (z_array candidate_schema_bbox_optional));
     image_quality \<leftarrow> z_required kvs ''image_quality'' image_quality_schema;
     errors \<leftarrow> z_required kvs ''errors'' (z_array error_entry_schema);
     Some \<lparr>vr_request_id = request_id, vr_candidates = candidates,
           vr_image_quality = image_quality, vr_errors = errors\<rparr> })"

text \<open>
  The candidates of a payload that lack the \<open>bbox\<close> key, by position.
\<close>

definition lacks_bbox :: "json \<Rightarrow> bool" where
  "lacks_bbox candidate = (get_prop candidate ''bbox'' = None)"

definition payload_candidates :: "json \<Rightarrow> json list" where
  "payload_candidates payload =
     (case get_prop payload ''candidates'' of Some (JArr cs) \<Rightarrow> cs | _ \<Rightarrow> [])"

definition profile_schema :: "json \<Rightarrow> Profile option" where
  "profile_schema = z_object (\<lambda>kvs. do {
     a \<leftarrow> z_required kvs ''arch_type'' (z_enum [''flat'', ''normal'', ''high'', ''unknown'']);
     u \<leftarrow> z_required kvs ''usage''
            (z_enum [''road'', ''trail'', ''treadmill'', ''casual'', ''racing'']);
     m \<leftarrow> z_required kvs ''weekly_mileage'' (z_min 0 (z_int z_number));
     Some \<lparr>arch_type = a, usage = u, weekly_mileage = m\<rparr> })"

definition specs_schema :: "json \<Rightarrow> ShoeSpecs option" where
  "specs_schema = z_object (\<lambda>kvs. do {
     t \<leftarrow> z_required kvs ''terrain'' (z_nullable z_string);
     s \<leftarrow> z_required kvs ''stability'' (z_nullable z_string);
     d \<leftarrow> z_required kvs ''drop_mm'' (z_nullable z_number);
     w \<leftarrow> z_required kvs ''weight_g'' (z_nullable z_number);
     c \<leftarrow> z_required kvs ''cushion'' (z_nullable z_string);
     Some \<lparr>terrain = t, stability = s, drop_mm = d, weight_g = w, cushion = c\<rparr> })"

definition ranked_schema :: "json \<Rightarrow> RankedRecommendation option" where
  "ranked_schema = z_object (\<lambda>kvs. do {
     model \<leftarrow> z_required kvs ''model'' z_string;
     match_score \<leftarrow> z_required kvs ''match_score'' (z_max 100 (z_min 0 z_number));
     why \<leftarrow> z_required kvs ''why'' (z_array_max 6 (z_array_min 1 (z_array z_string)));
     specs \<leftarrow> z_required kvs ''specs'' specs_schema;
     tradeoffs \<leftarrow> z_required kvs ''tradeoffs'' (z_array_max 6 (z_array z_string));
     confidence \<leftarrow> z_required kvs ''confidence'' (z_max 1 (z_min 0 z_number));
     Some \<lparr>rk_model = model, rk_match_score = match_score, rk_why = why, rk_specs = specs,
           rk_tradeoffs = tradeoffs, rk_confidence = confidence\<rparr> })"

definition avoid_schema :: "json \<Rightarrow> AvoidEntry option" where
  "avoid_schema = z_object (\<lambda>kvs. do {
     model \<leftarrow> z_required kvs ''model'' z_string;
     reason \<leftarrow> z_required kvs ''reason'' z_string;
     confidence \<leftarrow> z_required kvs ''confidence'' (z_max 1 (z_min 0 z_number));
     Some \<lparr>av_model = model, av_reason = reason, av_confidence = confidence\<rparr> })"

definition RankingSchema :: "json \<Rightarrow> RecommendationsResult option" where
  "RankingSchema = z_object (\<lambda>kvs. do {
     request_id \<leftarrow> z_required kvs ''request_id'' z_string;
     profile_used \<leftarrow> z_required kvs ''profile_used'' profile_schema;
     ranked \<leftarrow> z_required kvs ''ranked'' (z_array_max 5 (z_array ranked_schema));
     avoid \<leftarrow> z_required kvs ''avoid'' (z_array_max 5 (z_array avoid_schema));
     fallback_needed \<leftarrow> z_required kvs ''fallback_needed'' z_boolean;
     errors \<leftarrow> z_required kvs ''errors'' (z_array error_entry_schema);
     Some \<lparr>rr_request_id = request_id, rr_profile_used = profile_used, rr_ranked = ranked,
           rr_avoid = avoid, rr_fallback_needed = fallback_needed, rr_errors = errors\<rparr> })"

text \<open>
  The JavaScript object behind a typed \<open>RecommendationsResult\<close>: what
  \<open>RankingSchema.safeParse(mock)\<close> is handed.
\<close>

definition js_nullable :: "('a \<Rightarrow> json) \<Rightarrow> 'a option \<Rightarrow> json" where
  "js_nullable f v = (case v of None \<Rightarrow> JNull | Some a \<Rightarrow> f a)"

definition js_of_error :: "ErrorEntry \<Rightarrow> json" where
  "js_of_error e = JObj [(''code'', JStr (err_code e)), (''message'', JStr (err_message e))]"

definition js_of_profile :: "Profile \<Rightarrow> json" where
  "js_of_profile p =
     JObj [(''arch_type'', JStr (arch_type p)), (''usage'', JStr (usage p)),
           (''weekly_mileage'', JNum (weekly_mileage p))]"

definition js_of_specs :: "ShoeSpecs \<Rightarrow> json" where
  "js_of_specs s =
     JObj [(''terrain'', js_nullable JStr (terrain s)),
           (''stability'', js_nullable JStr (stability s)),
           (''drop_mm'', js_nullable JNum (drop_mm s)),
           (''weight_g'', js_nullable JNum (weight_g s)),
           (''cushion'', js_nullable JStr (cushion s))]"

definition js_of_ranked :: "RankedRecommendation \<Rightarrow> json" where
  "js_of_ranked r =
     JObj [(''model'', JStr (rk_model r)), (''match_score'', JNum (rk_match_score r)),
           (''why'', JArr (map JStr (rk_why r))), (''specs'', js_of_specs (rk_specs r)),
           (''tradeoffs'', JArr (map JStr (rk_tradeoffs r))),
           (''confidence'', JNum (rk_confidence r))]"

definition js_of_avoid :: "AvoidEntry \<Rightarrow> json" where
  "js_of_avoid a =
     JObj [(''model'', JStr (av_model a)), (''reason'', JStr (av_reason a)),
           (''confidence'', JNum (av_confidence a))]"

definition js_of_recommendations :: "RecommendationsResult \<Rightarrow> json" where
  "js_of_recommendations r =
     JObj [(''request_id'', JStr (rr_request_id r)),
           (''profile_used'', js_of_profile (rr_profile_used r)),
           (''ranked'', JArr (map js_of_ranked (rr_ranked r))),
           (''avoid'', JArr (map js_of_avoid (rr_avoid r))),
           (''fallback_needed'', JBool (rr_fallback_needed r)),
           (''errors'', JArr (map js_of_error (rr_errors r)))]"

section \<open>Model response parser\<close>

text \<open>
  A thrown value, with the fields the \<open>catch\<close> block of \<open>runVision\<close> reads:
  \<open>status\<close>, \<open>response.status\<close> and \<open>message\<close>; \<open>name\<close> is what \<open>String(e)\<close>
  prints before the message.
\<close>

record js_error =
  je_name :: string
  je_message :: string
  je_status :: "int option"
  je_response_status :: "int option"

definition new_Error :: "string \<Rightarrow> js_error" where
  "new_Error msg =
     \<lparr>je_name = ''Error'', je_message = msg, je_status = None, je_response_status = None\<rparr>"

text \<open>
  \<open>JSON.parse\<close> is a builtin of the runtime, taken as a parameter: \<open>Inl\<close> is the
  \<open>SyntaxError\<close> it throws. The \<open>try\<close> block returns a successful full parse; its
  \<open>catch\<close> block has no handler of its own, so a failure of the second parse
  propagates.
\<close>

definition safeParseJsonFromModel :: "(string \<Rightarrow> js_error + json) \<Rightarrow> string \<Rightarrow> js_error + json" where
  "safeParseJsonFromModel JSON_parse text =
     (case JSON_parse text of
        Inr v \<Rightarrow> Inr v
      | Inl _ \<Rightarrow>
          (let first_i = indexOf text CHR ''{'';
               last_i = lastIndexOf text CHR ''}''
           in if first_i \<ge> 0 \<and> last_i > first_i
              then JSON_parse (slice text first_i (last_i + 1))
              else Inl (new_Error ''Model output is not valid JSON'')))"

section \<open>Vision stage\<close>

text \<open>
  The module constants, read from the environment at start-up; \<open>openai\<close> is
  \<open>null\<close> exactly when \<open>apiKey\<close> is empty.
\<close>

record env =
  MOCK_VISION :: bool
  MOCK_RANKING :: bool
  VISION_MAX_CANDIDATES :: nat
  apiKey :: string
  OPENAI_MODEL :: string

definition openai_is_null :: "env \<Rightarrow> bool" where
  "openai_is_null e = (apiKey e = [])"

text \<open>
  The request of \<open>openai.responses.create\<close>: the model name, the two values the prompt
  template interpolates, and the image with its detail level.
\<close>

record create_request =
  cr_model :: string
  cr_prompt_max_candidates :: nat
  cr_prompt_request_id :: string
  cr_image_mimeType :: string
  cr_image_buffer :: string
  cr_image_detail :: string

text \<open>
  What the code calls outside the repository: the UUID drawn for the request,
  \<open>JSON.parse\<close>, the upstream call (\<open>Inl\<close> when it throws, \<open>Inr\<close> the
  \<open>output_text\<close> of its response) and the text of a zod error.
\<close>

record externals =
  randomUUID :: string
  JSON_parse :: "string \<Rightarrow> js_error + json"
  responses_create :: "create_request \<Rightarrow> js_error + string"
  zod_error_message :: "json \<Rightarrow> string"

record vision_args =
  imageUrl :: string
  mimeType :: string
  buffer :: string

definition fallback_image_quality :: ImageQuality where
  "fallback_image_quality = \<lparr>iq_lighting = ''ok'', iq_blur = ''mild'', iq_occlusion = ''some''\<rparr>"

definition mock_vision_result :: "string \<Rightarrow> VisionResult" where
  "mock_vision_result request_id =
     \<lparr>vr_request_id = request_id,
      vr_candidates =
        [\<lparr>vc_raw_label = ''Nike Pegasus 40'', vc_brand = Some ''Nike'',
          vc_model = Some ''Pegasus 40'', vc_confidence = 0.78,
          vc_bbox = Some \<lparr>bbox_x = 0.08, bbox_y = 0.22, bbox_w = 0.22, bbox_h = 0.18\<rparr>,
          vc_notes = None\<rparr>,
         \<lparr>vc_raw_label = ''Brooks Ghost 15'', vc_brand = Some ''Brooks'',
          vc_model = Some ''Ghost 15'', vc_confidence = 0.74,
          vc_bbox = Some \<lparr>bbox_x = 0.36, bbox_y = 0.28, bbox_w = 0.2, bbox_h = 0.16\<rparr>,
          vc_notes = None\<rparr>,
         \<lparr>vc_raw_label = ''Hoka Clifton 9'', vc_brand = Some ''Hoka'',
          vc_model = Some ''Clifton 9'', vc_confidence = 0.69,
          vc_bbox = Some \<lparr>bbox_x = 0.62, bbox_y = 0.31, bbox_w = 0.24, bbox_h = 0.19\<rparr>,
          vc_notes = None\<rparr>],
      vr_image_quality = fallback_image_quality,
      vr_errors = []\<rparr>"

definition vision_failure :: "string \<Rightarrow> string \<Rightarrow> string \<Rightarrow> VisionResult" where
  "vision_failure request_id code_str msg =
     \<lparr>vr_request_id = request_id, vr_candidates = [],
      vr_image_quality = fallback_image_quality,
      vr_errors = [\<lparr>err_code = code_str, err_message = msg\<rparr>]\<rparr>"

text \<open>The body of the \<open>try\<close> block: \<open>Inl\<close> is an exception on its way to \<open>catch\<close>.\<close>

definition runVision_try :: "env \<Rightarrow> externals \<Rightarrow> string \<Rightarrow> create_request \<Rightarrow> js_error + VisionResult" where
  "runVision_try e ext request_id req =
     (case responses_create ext req of
        Inl err \<Rightarrow> Inl err
      | Inr rawText \<Rightarrow>
          (case safeParseJsonFromModel (JSON_parse ext) rawText of
             Inl err \<Rightarrow> Inl err
           | Inr parsed \<Rightarrow>
               (let payload = patchVisionPayload parsed in
                case VisionSchema (VISION_MAX_CANDIDATES e) payload of
                  None \<Rightarrow>
                    Inr (vision_failure request_id ''VISION_SCHEMA_INVALID''
                           (zod_error_message ext payload))
                | Some data \<Rightarrow> Inr (normalizeVisionResult data))))"

text \<open>
  \<open>String(e)\<close> for an error object, and the \<open>catch\<close> block:
  \<open>status = e?.status ?? e?.response?.status ?? null\<close>,
  \<open>message = String(e?.message || e)\<close>.
\<close>

definition js_error_toString :: "js_error \<Rightarrow> string" where
  "js_error_toString err =
     (if je_name err = [] then je_message err
      else if je_message err = [] then je_name err
      else je_name err @ '': '' @ je_message err)"

definition runVision_catch :: "string \<Rightarrow> js_error \<Rightarrow> VisionResult" where
  "runVision_catch request_id err =
     (let status = (case je_status err of Some s \<Rightarrow> Some s | None \<Rightarrow> je_response_status err);
          msg = (if je_message err \<noteq> [] then je_message err else js_error_toString err)
      in vision_failure request_id ''VISION_UPSTREAM_ERROR''
           (''OpenAI failed (''
              @ (case status of None \<Rightarrow> ''unknown'' | Some s \<Rightarrow> js_string_of_int s)
              @ ''): '' @ msg))"

definition vision_request :: "env \<Rightarrow> string \<Rightarrow> vision_args \<Rightarrow> create_request" where
  "vision_request e request_id args =
     \<lparr>cr_model = OPENAI_MODEL e,
      cr_prompt_max_candidates = VISION_MAX_CANDIDATES e,
      cr_prompt_request_id = request_id,
      cr_image_mimeType = mimeType args,
      cr_image_buffer = buffer args,
      cr_image_detail = ''high''\<rparr>"

text \<open>
  \<open>runVision\<close> returns its outcome (\<open>Inl\<close>: the promise rejects) and the upstream
  requests it issued. Its arguments have their declared types (a string and a buffer
  can always be encoded into the request), so the statements before the \<open>try\<close>
  block always complete.
\<close>

definition runVision :: "env \<Rightarrow> externals \<Rightarrow> vision_args \<Rightarrow> (js_error + VisionResult) \<times> create_request list" where
  "runVision e ext args =
     (let request_id = randomUUID ext in
      if MOCK_VISION e \<or> openai_is_null e then (Inr (mock_vision_result request_id), [])
      else (let req = vision_request e request_id args
            in (case runVision_try e ext request_id req of
                  Inr r \<Rightarrow> Inr r
                | Inl err \<Rightarrow> Inr (runVision_catch request_id err),
                [req])))"

section \<open>Ranking stage\<close>

text \<open>A \<open>string | null\<close> interpolated by a template literal.\<close>

fun js_template_str :: "string option \<Rightarrow> string" where
  "js_template_str None = ''null''"
| "js_template_str (Some s) = s"

definition ranking_failure :: "string \<Rightarrow> Profile \<Rightarrow> string \<Rightarrow> string \<Rightarrow> RecommendationsResult" where
  "ranking_failure requestId profile code_str msg =
     \<lparr>rr_request_id = requestId, rr_profile_used = profile, rr_ranked = [], rr_avoid = [],
      rr_fallback_needed = True,
      rr_errors = [\<lparr>err_code = code_str, err_message = msg\<rparr>]\<rparr>"

definition mock_recommendation :: "Profile \<Rightarrow> nat \<times> VisionCandidate \<Rightarrow> RankedRecommendation" where
  "mock_recommendation profile ic =
     (case ic of (i, c) \<Rightarrow>
        \<lparr>rk_model = js_template_str (vc_brand c) @ '' '' @ js_template_str (vc_model c),
         rk_match_score = 90 - real i * 8,
         rk_why = [''Matches '' @ usage profile @ '' usage'',
                   ''Heuristic match for '' @ arch_type profile @ '' arch''],
         rk_specs = \<lparr>terrain = Some (usage profile),
                      stability = Some (if arch_type profile = ''flat'' then ''stable'' else ''neutral''),
                      drop_mm = Some 8, weight_g = Some 290, cushion = Some ''medium''\<rparr>,
         rk_tradeoffs = [''Mock tradeoff''],
         rk_confidence = 0.65\<rparr>)"

definition mock_ranked :: "Profile \<Rightarrow> VisionCandidate list \<Rightarrow> RankedRecommendation list" where
  "mock_ranked profile cands =
     map (mock_recommendation profile)
       (enumerate 0 (take 3 (filter (\<lambda>c. truthy_str (vc_brand c) \<and> truthy_str (vc_model c)) cands)))"

text \<open>The object \<open>mock\<close> that the mock path builds before validating it.\<close>

definition mock_result :: "string \<Rightarrow> Profile \<Rightarrow> VisionCandidate list \<Rightarrow> RecommendationsResult" where
  "mock_result requestId profile cands =
     (let ranked = mock_ranked profile cands
      in \<lparr>rr_request_id = requestId, rr_profile_used = profile, rr_ranked = ranked,
          rr_avoid = [], rr_fallback_needed = (length ranked = 0), rr_errors = []\<rparr>)"

text \<open>
  \<open>runRanking\<close>, with the fields of its argument object as arguments; \<open>specsByName\<close>
  is accepted and never read. It returns its outcome and the upstream requests it issued.
\<close>

definition runRanking :: "env \<Rightarrow> externals \<Rightarrow> string \<Rightarrow> Profile \<Rightarrow> VisionCandidate list \<Rightarrow> (string \<times> json) list \<Rightarrow> bool \<Rightarrow> (js_error + RecommendationsResult) \<times> create_request list" where
  "runRanking e ext requestId profile cands specsByName visionFailed =
     (if visionFailed
      then (Inr (ranking_failure requestId profile ''VISION_UNAVAILABLE''
                   ''Automatic shoe detection unavailable. Use manual search.''), [])
      else if MOCK_RANKING e \<or> openai_is_null e
      then (let mock = mock_result requestId profile cands
            in case RankingSchema (js_of_recommendations mock) of
                 None \<Rightarrow>
                   (Inr (ranking_failure requestId profile ''MOCK_RANK_SCHEMA_INVALID''
                           (zod_error_message ext (js_of_recommendations mock))), [])
               | Some checked \<Rightarrow> (Inr mock, []))
      else (Inr (ranking_failure requestId profile ''RANKING_NOT_ENABLED''
                   ''Real ranking not enabled yet.''), []))"

section \<open>Overlay renderer (services/overlay.ts)\<close>
















section \<open>Valid profiles\<close>

text \<open>
  A valid profile, as the \<open>users\<close> table and the ranking schema have it: the two enums
  and a non-negative integer mileage.
\<close>

definition valid_profile :: "Profile \<Rightarrow> bool" where
  "valid_profile p =
     (List.member [''flat'', ''normal'', ''high'', ''unknown''] (arch_type p)
      \<and> List.member [''road'', ''trail'', ''treadmill'', ''casual'', ''racing''] (usage p)
      \<and> isInteger (weekly_mileage p) \<and> 0 \<le> weekly_mileage p)"

section \<open>A reference reading of \<open>JSON.parse\<close>\<close>

text \<open>
  The code is verified for every behaviour of \<open>JSON.parse\<close> (it is a parameter of
  \<open>safeParseJsonFromModel\<close>). To run the code on concrete texts, this section gives a
  recursive-descent reading of the JSON grammar for ASCII texts: whitespace, the three
  literals, numbers, strings with the single-character escapes (a unicode escape is
  outside the fragment and rejected), arrays and objects, a repeated key keeping its
  first position and its last value. A number is read at its exact value (the runtime
  rounds it to a double). The fuel bounds the number of nested calls and is taken from
  the length of the text.
\<close>

definition is_ws :: "char \<Rightarrow> bool" where
  "is_ws c = (c = CHR '' '' \<or> c = CHR 0x09 \<or> c = CHR 0x0A \<or> c = CHR 0x0D)"

definition skip_ws :: "string \<Rightarrow> string" where
  "skip_ws s = dropWhile is_ws s"

definition is_digit :: "char \<Rightarrow> bool" where
  "is_digit c = (48 \<le> (of_char c :: nat) \<and> (of_char c :: nat) \<le> 57)"

definition digits_value :: "string \<Rightarrow> nat" where
  "digits_value ds = foldl (\<lambda>acc d. 10 * acc + (of_char d - 48)) 0 ds"

text \<open>The characters of a string literal after its opening quote, up to the closing one.\<close>

fun lex_string :: "string \<Rightarrow> string \<Rightarrow> (string \<times> string) option" where
  "lex_string acc [] = None"
| "lex_string acc [c] = (if c = CHR 0x22 then Some (acc, []) else None)"
| "lex_string acc (c # d # cs) =
     (if c = CHR 0x22 then Some (acc, d # cs)
      else if c = CHR 0x5C then
        (if d = CHR 0x22 \<or> d = CHR 0x5C \<or> d = CHR ''/'' then lex_string (acc @ [d]) cs
         else if d = CHR ''b'' then lex_string (acc @ [CHR 0x08]) cs
         else if d = CHR ''f'' then lex_string (acc @ [CHR 0x0C]) cs
         else if d = CHR ''n'' then lex_string (acc @ [CHR 0x0A]) cs
         else if d = CHR ''r'' then lex_string (acc @ [CHR 0x0D]) cs
         else if d = CHR ''t'' then lex_string (acc @ [CHR 0x09]) cs
         else None)
      else if (of_char c :: nat) < 32 then None
      else lex_string (acc @ [c]) (d # cs))"

text \<open>A number: \<open>-? (0 | [1-9][0-9]*) (. [0-9]+)? ([eE] [+-]? [0-9]+)?\<close>.\<close>

definition lex_number :: "string \<Rightarrow> (real \<times> string) option" where
  "lex_number s =
     (let neg = (s \<noteq> [] \<and> hd s = CHR ''-'');
          s1 = (if neg then tl s else s);
          ip = takeWhile is_digit s1;
          s2 = dropWhile is_digit s1;
          has_frac = (s2 \<noteq> [] \<and> hd s2 = CHR ''.'');
          fp = (if has_frac then takeWhile is_digit (tl s2) else []);
          s3 = (if has_frac then dropWhile is_digit (tl s2) else s2);
          has_exp = (s3 \<noteq> [] \<and> (hd s3 = CHR ''e'' \<or> hd s3 = CHR ''E''));
          s4 = (if has_exp then tl s3 else s3);
          eneg = (has_exp \<and> s4 \<noteq> [] \<and> hd s4 = CHR ''-'');
          s5 = (if has_exp \<and> s4 \<noteq> [] \<and> (hd s4 = CHR ''-'' \<or> hd s4 = CHR ''+'')
                then tl s4 else s4);
          ep = (if has_exp then takeWhile is_digit s5 else []);
          s6 = (if has_exp then dropWhile is_digit s5 else s3);
          mantissa = real (digits_value ip) + real (digits_value fp) / 10 ^ length fp;
          scaled = (if eneg then mantissa / 10 ^ digits_value ep
                    else mantissa * 10 ^ digits_value ep)
      in if ip = [] \<or> (length ip > 1 \<and> hd ip = CHR ''0'') \<or> (has_frac \<and> fp = [])
            \<or> (has_exp \<and> ep = [])
         then None
         else Some (if neg then - scaled else scaled, s6))"

definition strip_prefix :: "string \<Rightarrow> string \<Rightarrow> string option" where
  "strip_prefix p s = (if take (length p) s = p then Some (drop (length p) s) else None)"

fun parse_value :: "nat \<Rightarrow> string \<Rightarrow> (json \<times> string) option"
  and parse_elements :: "nat \<Rightarrow> json list \<Rightarrow> string \<Rightarrow> (json \<times> string) option"
  and parse_members :: "nat \<Rightarrow> (string \<times> json) list \<Rightarrow> string \<Rightarrow> (json \<times> string) option"
where
  "parse_value 0 s = None"
| "parse_value (Suc n) s =
     (case skip_ws s of
        [] \<Rightarrow> None
      | c # cs \<Rightarrow>
          if c = CHR ''{'' then
            (case skip_ws cs of
               [] \<Rightarrow> None
             | d # ds \<Rightarrow> if d = CHR ''}'' then Some (JObj [], ds) else parse_members n [] cs)
          else if c = CHR ''['' then
            (case skip_ws cs of
               [] \<Rightarrow> None
             | d # ds \<Rightarrow> if d = CHR '']'' then Some (JArr [], ds) else parse_elements n [] cs)
          else if c = CHR 0x22 then map_option (\<lambda>(str, r). (JStr str, r)) (lex_string [] cs)
          else if c = CHR ''t'' then map_option (Pair (JBool True)) (strip_prefix ''rue'' cs)
          else if c = CHR ''f'' then map_option (Pair (JBool False)) (strip_prefix ''alse'' cs)
          else if c = CHR ''n'' then map_option (Pair JNull) (strip_prefix ''ull'' cs)
          else map_option (\<lambda>(r, rest). (JNum r, rest)) (lex_number (c # cs)))"
| "parse_elements 0 acc s = None"
| "parse_elements (Suc n) acc s =
     (case parse_value n s of
        None \<Rightarrow> None
      | Some (v, r) \<Rightarrow>
          (case skip_ws r of
             [] \<Rightarrow> None
           | c # cs \<Rightarrow>
               if c = CHR '','' then parse_elements n (acc @ [v]) cs
               else if c = CHR '']'' then Some (JArr (acc @ [v]), cs)
               else None))"
| "parse_members 0 acc s = None"
| "parse_members (Suc n) acc s =
     (case skip_ws s of
        [] \<Rightarrow> None
      | q # s1 \<Rightarrow>
          if q \<noteq> CHR 0x22 then None
          else (case lex_string [] s1 of
                  None \<Rightarrow> None
                | Some (k, s2) \<Rightarrow>
                    (case skip_ws s2 of
                       [] \<Rightarrow> None
                     | c # s3 \<Rightarrow>
                         if c \<noteq> CHR '':'' then None
                         else (case parse_value n s3 of
                                 None \<Rightarrow> None
                               | Some (v, s4) \<Rightarrow>
                                   (case skip_ws s4 of
                                      [] \<Rightarrow> None
                                    | d # s5 \<Rightarrow>
                                        if d = CHR '','' then parse_members n (AList.update k v acc) s5
                                        else if d = CHR ''}''
                                        then Some (JObj (AList.update k v acc), s5)
                                        else None)))))"

definition SyntaxError :: js_error where
  "SyntaxError =
     \<lparr>je_name = ''SyntaxError'', je_message = ''Unexpected token in JSON'',
      je_status = None, je_response_status = None\<rparr>"

definition JSON_parse_ascii :: "string \<Rightarrow> js_error + json" where
  "JSON_parse_ascii text =
     (case parse_value (2 * length text + 2) text of
        None \<Rightarrow> Inl SyntaxError
      | Some (v, r) \<Rightarrow> if skip_ws r = [] then Inr v else Inl SyntaxError)"

section \<open>Texts with an embedded JSON object\<close>

text \<open>
  The words "the text contains exactly one well-formed JSON object" are read as: of the
  substrings that begin with \<open>{\<close> and end with \<open>}\<close>, exactly one parses to an object.
  \<open>braced_substrings\<close> lists these substrings by start position, then by end position.
\<close>

fun prefixes_ending :: "char \<Rightarrow> string \<Rightarrow> string list" where
  "prefixes_ending c [] = []"
| "prefixes_ending c (d # ds) =
     (if d = c then [[d]] else []) @ map ((#) d) (prefixes_ending c ds)"

fun braced_substrings :: "string \<Rightarrow> string list" where
  "braced_substrings [] = []"
| "braced_substrings (d # ds) =
     (if d = CHR ''{'' then map ((#) d) (prefixes_ending CHR ''}'' ds) else [])
       @ braced_substrings ds"

definition parses_to_object :: "string \<Rightarrow> bool" where
  "parses_to_object t = (case JSON_parse_ascii t of Inr (JObj kvs) \<Rightarrow> True | _ \<Rightarrow> False)"

definition embedded_objects :: "string \<Rightarrow> string list" where
  "embedded_objects s = filter parses_to_object (braced_substrings s)"

section \<open>Typed values inside the ranges of the ranking schema\<close>

text \<open>
  The range and length constraints that \<open>RankingSchema\<close> places on a ranked entry and
  on a result whose \<open>avoid\<close> list is empty, stated on the typed values.
\<close>

definition ranked_ok :: "RankedRecommendation \<Rightarrow> bool" where
  "ranked_ok r = (0 \<le> rk_match_score r \<and> rk_match_score r \<le> 100
     \<and> 1 \<le> length (rk_why r) \<and> length (rk_why r) \<le> 6 \<and> length (rk_tradeoffs r) \<le> 6
     \<and> 0 \<le> rk_confidence r \<and> rk_confidence r \<le> 1)"

definition result_ok :: "RecommendationsResult \<Rightarrow> bool" where
  "result_ok r = (valid_profile (rr_profile_used r) \<and> list_all ranked_ok (rr_ranked r)
     \<and> length (rr_ranked r) \<le> 5 \<and> rr_avoid r = [])"

section \<open>Sample configurations and inputs\<close>

text \<open>
  \<open>default_env\<close> is the module's configuration when no variable is set
  (\<open>MOCK_AI\<close> defaults to true, no API key); \<open>live_env\<close> has both mock flags off and
  a key. \<open>sample_externals\<close> fixes the UUID, reads JSON with \<open>JSON_parse_ascii\<close> and
  answers every upstream request with the given outcome.
\<close>

definition default_env :: env where
  "default_env = \<lparr>MOCK_VISION = True, MOCK_RANKING = True, VISION_MAX_CANDIDATES = 8,
                   apiKey = [], OPENAI_MODEL = ''gpt-4o-mini''\<rparr>"

definition live_env :: env where
  "live_env = \<lparr>MOCK_VISION = False, MOCK_RANKING = False, VISION_MAX_CANDIDATES = 8,
                apiKey = ''sk-test'', OPENAI_MODEL = ''gpt-4o-mini''\<rparr>"

definition sample_externals :: "(js_error + string) \<Rightarrow> externals" where
  "sample_externals upstream =
     \<lparr>randomUUID = ''3f2b8c1e-0000-4000-8000-000000000001'',
      JSON_parse = JSON_parse_ascii,
      responses_create = (\<lambda>req. upstream),
      zod_error_message = (\<lambda>j. ''schema violation'')\<rparr>"

definition rate_limit_error :: js_error where
  "rate_limit_error =
     \<lparr>je_name = ''RateLimitError'', je_message = ''429 Too Many Requests'',
      je_status = Some 429, je_response_status = None\<rparr>"

definition sample_args :: vision_args where
  "sample_args = \<lparr>imageUrl = ''debug-overlay-upload'', mimeType = ''image/png'', buffer = []\<rparr>"

definition sample_profile :: Profile where
  "sample_profile = \<lparr>arch_type = ''normal'', usage = ''road'', weekly_mileage = 20\<rparr>"


text \<open>
  A detection payload whose first candidate omits the \<open>bbox\<close> key, and the typed value
  it stands for.
\<close>

definition sample_payload :: json where
  "sample_payload =
     JObj [(''request_id'', JStr ''3f2b8c1e-0000-4000-8000-000000000001''),
           (''candidates'',
              JArr [JObj [(''raw_label'', JStr ''Nike Pegasus 40''), (''brand'', JStr ''Nike''),
                          (''model'', JStr ''Pegasus 40''), (''confidence'', JNum 0.78)],
                    JObj [(''raw_label'', JStr ''blue shoe''), (''brand'', JNull),
                          (''model'', JNull), (''confidence'', JNum 0.3),
                          (''bbox'', JObj [(''x'', JNum 0.9), (''y'', JNum 0.9),
                                           (''w'', JNum 0.5), (''h'', JNum 0.5)])]]),
           (''image_quality'',
              JObj [(''lighting'', JStr ''good''), (''blur'', JStr ''none''),
                    (''occlusion'', JStr ''some'')]),
           (''errors'', JArr [])]"

definition sample_payload_result :: VisionResult where
  "sample_payload_result =
     \<lparr>vr_request_id = ''3f2b8c1e-0000-4000-8000-000000000001'',
      vr_candidates =
        [\<lparr>vc_raw_label = ''Nike Pegasus 40'', vc_brand = Some ''Nike'',
          vc_model = Some ''Pegasus 40'', vc_confidence = 0.78, vc_bbox = None,
          vc_notes = None\<rparr>,
         \<lparr>vc_raw_label = ''blue shoe'', vc_brand = None, vc_model = None,
          vc_confidence = 0.3,
          vc_bbox = Some \<lparr>bbox_x = 0.9, bbox_y = 0.9, bbox_w = 0.5, bbox_h = 0.5\<rparr>,
          vc_notes = None\<rparr>],
      vr_image_quality = \<lparr>iq_lighting = ''good'', iq_blur = ''none'', iq_occlusion = ''some''\<rparr>,
      vr_errors = []\<rparr>"

section \<open>Properties of the geometry normalizer\<close>



lemma normalizeBbox_None_iff: "normalizeBbox b = None \<longleftrightarrow> b = None"
  by (cases b) (simp_all add: Let_def)




text \<open>
  C8. \<open>normalizeVisionResult\<close> keeps \<open>request_id\<close> and \<open>image_quality\<close>, keeps the
  candidates in number and order with every field but \<open>bbox\<close> untouched, replaces each
  \<open>bbox\<close> by its normalized value (so that as many are null after as before), keeps the
  errors as a prefix, and appends one \<open>VISION_PARTIAL_BBOX\<close> entry carrying the count
  of null bboxes exactly when that count is positive.
\<close>

theorem C8_normalizeVisionResult_frame:
  "vr_request_id (normalizeVisionResult r) = vr_request_id r
   \<and> vr_image_quality (normalizeVisionResult r) = vr_image_quality r
   \<and> length (vr_candidates (normalizeVisionResult r)) = length (vr_candidates r)
   \<and> map vc_raw_label (vr_candidates (normalizeVisionResult r)) = map vc_raw_label (vr_candidates r)
   \<and> map vc_brand (vr_candidates (normalizeVisionResult r)) = map vc_brand (vr_candidates r)
   \<and> map vc_model (vr_candidates (normalizeVisionResult r)) = map vc_model (vr_candidates r)
   \<and> map vc_confidence (vr_candidates (normalizeVisionResult r))
       = map vc_confidence (vr_candidates r)
   \<and> map vc_notes (vr_candidates (normalizeVisionResult r)) = map vc_notes (vr_candidates r)
   \<and> map vc_bbox (vr_candidates (normalizeVisionResult r))
       = map (\<lambda>c. normalizeBbox (vc_bbox c)) (vr_candidates r)
   \<and> length (filter (\<lambda>c. vc_bbox c = None) (vr_candidates (normalizeVisionResult r)))
       = length (filter (\<lambda>c. vc_bbox c = None) (vr_candidates r))
   \<and> vr_errors (normalizeVisionResult r)
       = vr_errors r
         @ (if 0 < length (filter (\<lambda>c. vc_bbox c = None) (vr_candidates (normalizeVisionResult r)))
            then [\<lparr>err_code = ''VISION_PARTIAL_BBOX'',
                   err_message =
                     js_string_of_nat
                       (length (filter (\<lambda>c. vc_bbox c = None)
                                  (vr_candidates (normalizeVisionResult r))))
                     @ '' candidate(s) missing bbox due to ambiguity or occlusion.''\<rparr>]
            else [])"
  by (simp add: normalizeVisionResult_def Let_def partial_bbox_error_def filter_map comp_def
        normalizeBbox_None_iff)

section \<open>Properties of the ranking stage\<close>

lemmas zod_defs = z_string_def z_number_def z_boolean_def z_refine_def z_min_def z_max_def
  z_int_def z_enum_def z_nullable_def z_array_def z_array_min_def z_array_max_def
  z_object_def z_required_def z_optional_def

text \<open>
  C2. With \<open>visionFailed = true\<close>, \<open>runRanking\<close> returns, for every configuration,
  request id, profile, candidate list and catalog, the fallback result with the given
  request id, empty \<open>ranked\<close> and \<open>avoid\<close>, \<open>fallback_needed = true\<close> and the single
  error \<open>VISION_UNAVAILABLE\<close>; the list of upstream requests it issued is empty.
\<close>

theorem C2_vision_failed_short_circuit:
  "runRanking e ext requestId profile cands specsByName True =
     (Inr \<lparr>rr_request_id = requestId, rr_profile_used = profile, rr_ranked = [], rr_avoid = [],
           rr_fallback_needed = True,
           rr_errors = [\<lparr>err_code = ''VISION_UNAVAILABLE'',
                         err_message = ''Automatic shoe detection unavailable. Use manual search.''\<rparr>]\<rparr>,
      [])"
  by (simp add: runRanking_def ranking_failure_def)

subsection \<open>A typed value inside the ranges passes the schema unchanged\<close>

lemma those_map_roundtrip:
  "list_all (\<lambda>x. s (f x) = Some x) xs \<Longrightarrow> those (map (s \<circ> f) xs) = Some xs"
  by (induction xs) simp_all

lemma z_string_JStr: "those (map (z_string \<circ> JStr) xs) = Some xs"
  by (rule those_map_roundtrip) (simp add: list_all_iff z_string_def)

lemma error_entry_roundtrip: "error_entry_schema (js_of_error x) = Some x"
  by (simp add: error_entry_schema_def js_of_error_def zod_defs)

lemma errors_roundtrip: "those (map (error_entry_schema \<circ> js_of_error) xs) = Some xs"
  by (rule those_map_roundtrip) (simp add: list_all_iff error_entry_roundtrip)

lemma specs_roundtrip: "specs_schema (js_of_specs x) = Some x"
  by (simp add: specs_schema_def js_of_specs_def js_nullable_def zod_defs split: option.splits)

lemma ranked_roundtrip: "ranked_ok x \<Longrightarrow> ranked_schema (js_of_ranked x) = Some x"
  by (simp add: ranked_schema_def js_of_ranked_def ranked_ok_def zod_defs z_string_JStr
        specs_roundtrip)

lemma profile_roundtrip: "valid_profile p \<Longrightarrow> profile_schema (js_of_profile p) = Some p"
  by (simp add: profile_schema_def js_of_profile_def valid_profile_def zod_defs)

lemma ranked_list_roundtrip:
  "list_all ranked_ok xs \<Longrightarrow> those (map (ranked_schema \<circ> js_of_ranked) xs) = Some xs"
  by (rule those_map_roundtrip) (simp add: list_all_iff ranked_roundtrip)

lemma recommendations_roundtrip:
  "result_ok r \<Longrightarrow> RankingSchema (js_of_recommendations r) = Some r"
  by (simp add: RankingSchema_def js_of_recommendations_def result_ok_def zod_defs
        profile_roundtrip ranked_list_roundtrip errors_roundtrip)

subsection \<open>The mock recommendations are inside the ranges\<close>

lemma mock_recommendation_ok: "i \<le> 11 \<Longrightarrow> ranked_ok (mock_recommendation profile (i, c))"
  by (simp add: mock_recommendation_def ranked_ok_def)

lemma enumerate_fst_bound: "ic \<in> set (enumerate n xs) \<Longrightarrow> fst ic < n + length xs"
  by (simp add: in_set_enumerate_eq)

lemma mock_ranked_ok: "list_all ranked_ok (mock_ranked profile cands)"
proof -
  have "ranked_ok (mock_recommendation profile ic)"
    if "ic \<in> set (enumerate 0 (take 3 xs))" for ic and xs :: "VisionCandidate list"
  proof -
    have "fst ic < 0 + length (take 3 xs)"
      using that by (rule enumerate_fst_bound)
    then have "fst ic \<le> 11" by simp
    then show ?thesis
      using mock_recommendation_ok [of "fst ic" profile "snd ic"] by simp
  qed
  then show ?thesis
    by (simp add: mock_ranked_def list_all_iff)
qed

lemma mock_ranked_length: "length (mock_ranked profile cands) \<le> 3"
  by (simp add: mock_ranked_def)

lemma mock_result_ok:
  assumes "valid_profile profile"
  shows "result_ok (mock_result requestId profile cands)"
proof -
  have "length (mock_ranked profile cands) \<le> 5"
    using mock_ranked_length [of profile cands] by simp
  then show ?thesis
    using assms by (simp add: result_ok_def mock_result_def mock_ranked_ok Let_def)
qed

lemma ranking_failure_ok:
  "valid_profile profile \<Longrightarrow> result_ok (ranking_failure requestId profile c m)"
  by (simp add: result_ok_def ranking_failure_def)

lemma runRanking_mock:
  assumes "valid_profile profile" and "MOCK_RANKING e \<or> openai_is_null e"
  shows "runRanking e ext requestId profile cands specsByName False =
     (Inr (mock_result requestId profile cands), [])"
  using assms(2) recommendations_roundtrip [OF mock_result_ok [OF assms(1), of requestId cands]]
  by (simp add: runRanking_def Let_def)

lemma default_env_mock:
  "MOCK_VISION default_env \<or> openai_is_null default_env"
  "MOCK_RANKING default_env \<or> openai_is_null default_env"
  by (simp_all add: default_env_def)

lemma sample_profile_valid: "valid_profile sample_profile"
  by (simp add: valid_profile_def sample_profile_def isInteger_def)

text \<open>
  C3. For a valid profile, whatever the request id, the candidates, the catalog and the
  \<open>visionFailed\<close> flag, \<open>runRanking\<close> returns a result, and that result passes
  \<open>RankingSchema\<close> unchanged. The statement holds in every configuration, so in
  particular in mock mode; there the self-validation of the constructed object succeeds,
  and the substitute result of the failing branch is itself inside the schema.
\<close>

theorem C3_ranking_output_validates:
  assumes "valid_profile profile"
  shows "\<exists>r. fst (runRanking e ext requestId profile cands specsByName visionFailed) = Inr r
              \<and> RankingSchema (js_of_recommendations r) = Some r"
  using assms
  by (simp add: runRanking_def Let_def recommendations_roundtrip mock_result_ok
        ranking_failure_ok)

theorem C3_ranking_output_validates_witness:
  "\<exists>r. fst (runRanking default_env (sample_externals (Inr [])) ''req-1'' sample_profile
              (vr_candidates (mock_vision_result ''req-1'')) [] False) = Inr r
       \<and> RankingSchema (js_of_recommendations r) = Some r"
  using C3_ranking_output_validates [OF sample_profile_valid] by blast

text \<open>
  The failing branch of the self-validation is reached exactly for a profile outside
  the schema, and the substitute result, which echoes that profile, is then itself
  rejected by the schema.
\<close>

lemma profile_schema_valid:
  assumes "profile_schema (js_of_profile p) = Some q"
  shows "valid_profile p"
  using assms
  by (auto simp: profile_schema_def js_of_profile_def valid_profile_def zod_defs
        bind_eq_Some_conv split: if_splits)

lemma self_validation_fails_iff:
  "RankingSchema (js_of_recommendations (mock_result requestId profile cands)) = None
     \<longleftrightarrow> \<not> valid_profile profile"
proof
  assume "RankingSchema (js_of_recommendations (mock_result requestId profile cands)) = None"
  then show "\<not> valid_profile profile"
    using recommendations_roundtrip [OF mock_result_ok, of profile requestId cands] by auto
next
  assume inv: "\<not> valid_profile profile"
  show "RankingSchema (js_of_recommendations (mock_result requestId profile cands)) = None"
  proof (rule ccontr)
    assume "RankingSchema (js_of_recommendations (mock_result requestId profile cands)) \<noteq> None"
    then obtain r where
      "RankingSchema (js_of_recommendations (mock_result requestId profile cands)) = Some r"
      by auto
    then obtain q where "profile_schema (js_of_profile profile) = Some q"
      by (auto simp: RankingSchema_def js_of_recommendations_def mock_result_def Let_def
            z_object_def z_required_def bind_eq_Some_conv split: option.splits)
    then show False using inv profile_schema_valid by blast
  qed
qed

lemma substitute_result_rejected:
  assumes "\<not> valid_profile profile"
  shows "RankingSchema (js_of_recommendations (ranking_failure requestId profile c m)) = None"
proof (rule ccontr)
  assume "RankingSchema (js_of_recommendations (ranking_failure requestId profile c m)) \<noteq> None"
  then obtain r where
    "RankingSchema (js_of_recommendations (ranking_failure requestId profile c m)) = Some r"
    by auto
  then obtain q where "profile_schema (js_of_profile profile) = Some q"
    by (auto simp: RankingSchema_def js_of_recommendations_def ranking_failure_def
          z_object_def z_required_def bind_eq_Some_conv split: option.splits)
  then show False using assms profile_schema_valid by blast
qed

lemma mock_ranked_three:
  "mock_ranked profile (vr_candidates (mock_vision_result rid))
     = [mock_recommendation profile (0, vr_candidates (mock_vision_result rid) ! 0),
        mock_recommendation profile (1, vr_candidates (mock_vision_result rid) ! 1),
        mock_recommendation profile (2, vr_candidates (mock_vision_result rid) ! 2)]"
  by (simp add: mock_ranked_def mock_vision_result_def numeral_2_eq_2)

text \<open>
  C6. In mock mode for both stages and for a valid profile, \<open>runVision\<close> returns the
  three fixed candidates (Nike Pegasus 40 at 0.78, Brooks Ghost 15 at 0.74, Hoka Clifton 9
  at 0.69), and \<open>runRanking\<close> on them, called as the route calls it (\<open>visionFailed\<close>
  is "no candidates"), returns three recommendations with scores 90, 82, 74 in that
  order and \<open>fallback_needed = false\<close>.
\<close>

theorem C6_mock_pipeline_scores:
  assumes "valid_profile profile"
    and "MOCK_VISION e \<or> openai_is_null e"
    and "MOCK_RANKING e \<or> openai_is_null e"
  shows "\<exists>v r. fst (runVision e ext args) = Inr v
           \<and> map vc_raw_label (vr_candidates v)
               = [''Nike Pegasus 40'', ''Brooks Ghost 15'', ''Hoka Clifton 9'']
           \<and> map vc_confidence (vr_candidates v) = [0.78, 0.74, 0.69]
           \<and> fst (runRanking e ext (vr_request_id v) profile (vr_candidates v) specsByName
                     (length (vr_candidates v) = 0)) = Inr r
           \<and> length (rr_ranked r) = 3
           \<and> map rk_match_score (rr_ranked r) = [90, 82, 74]
           \<and> rr_fallback_needed r = False"
proof -
  let ?v = "mock_vision_result (randomUUID ext)"
  let ?r = "mock_result (vr_request_id ?v) profile (vr_candidates ?v)"
  have v: "fst (runVision e ext args) = Inr ?v"
    using assms(2) by (simp add: runVision_def Let_def)
  have three: "length (vr_candidates ?v) = 3"
    by (simp add: mock_vision_result_def)
  have r: "fst (runRanking e ext (vr_request_id ?v) profile (vr_candidates ?v) specsByName
                  (length (vr_candidates ?v) = 0)) = Inr ?r"
    using runRanking_mock [OF assms(1,3)] by (simp add: three)
  have len: "length (rr_ranked ?r) = 3"
    by (simp add: mock_result_def mock_ranked_three)
  have "mock_ranked profile (vr_candidates ?v) \<noteq> []"
    by (simp add: mock_ranked_three)
  then have fb: "rr_fallback_needed ?r = False"
    by (simp add: mock_result_def Let_def)
  have scores: "map rk_match_score (rr_ranked ?r) = [90, 82, 74]"
    by (simp add: mock_result_def mock_ranked_three mock_recommendation_def)
  have labels: "map vc_raw_label (vr_candidates ?v)
               = [''Nike Pegasus 40'', ''Brooks Ghost 15'', ''Hoka Clifton 9'']"
      "map vc_confidence (vr_candidates ?v) = [0.78, 0.74, 0.69]"
    by (simp_all add: mock_vision_result_def)
  show ?thesis
    using v r len fb scores labels by (intro exI [of _ ?v] exI [of _ ?r]) simp
qed

text \<open>Scenario A of the specification: the default configuration and the sample profile.\<close>

theorem C6_mock_pipeline_scores_witness:
  "\<exists>v r. fst (runVision default_env (sample_externals (Inr [])) sample_args) = Inr v
         \<and> map vc_raw_label (vr_candidates v)
             = [''Nike Pegasus 40'', ''Brooks Ghost 15'', ''Hoka Clifton 9'']
         \<and> map vc_confidence (vr_candidates v) = [0.78, 0.74, 0.69]
         \<and> fst (runRanking default_env (sample_externals (Inr [])) (vr_request_id v) sample_profile
                   (vr_candidates v) [] (length (vr_candidates v) = 0)) = Inr r
         \<and> length (rr_ranked r) = 3
         \<and> map rk_match_score (rr_ranked r) = [90, 82, 74]
         \<and> rr_fallback_needed r = False"
  by (rule C6_mock_pipeline_scores [OF sample_profile_valid default_env_mock])


lemma isInteger_minus_one: "isInteger (- 1)"
  by (simp add: isInteger_def del: of_int_floor_cancel)




section \<open>Properties of the patch step\<close>

lemma z_required_update:
  "z_required (AList.update k v kvs) k' s = (if k' = k then s v else z_required kvs k' s)"
  by (simp add: z_required_def update_conv')

lemma z_optional_update:
  "z_optional (AList.update k v kvs) k' s
     = (if k' = k then map_option Some (s v) else z_optional kvs k' s)"
  by (simp add: z_optional_def update_conv')

lemma patch_candidate_obj:
  "patch_candidate (JObj kvs)
     = JObj (AList.update ''bbox'' (case map_of kvs ''bbox'' of None \<Rightarrow> JNull | Some v \<Rightarrow> v) kvs)"
  by (simp add: patch_candidate_def)

lemma candidate_schema_patch_obj:
  "candidate_schema (patch_candidate (JObj kvs)) = candidate_schema_bbox_optional (JObj kvs)"
proof (cases "map_of kvs ''bbox''")
  case None
  then show ?thesis
    by (simp add: patch_candidate_obj candidate_schema_def candidate_schema_bbox_optional_def
          z_object_def z_required_update z_optional_update)
       (simp add: z_optional_def z_nullable_def)
next
  case (Some v)
  then show ?thesis
    by (simp add: patch_candidate_obj candidate_schema_def candidate_schema_bbox_optional_def
          z_object_def z_required_update z_optional_update)
       (cases "z_nullable bbox_schema v"; simp add: z_optional_def)
qed

lemma candidate_schema_patch:
  assumes "candidate_schema_bbox_optional c = Some vc"
  shows "candidate_schema (patch_candidate c) = Some vc"
proof (cases c)
  case (JObj kvs)
  then show ?thesis using assms by (simp add: candidate_schema_patch_obj)
qed (use assms in \<open>simp_all add: candidate_schema_bbox_optional_def z_object_def\<close>)

lemma those_map_patch:
  assumes "those (map f cs) = Some xs"
    and "\<And>c x. f c = Some x \<Longrightarrow> g (h c) = Some x"
  shows "those (map (g \<circ> h) cs) = Some xs"
  using assms(1)
proof (induction cs arbitrary: xs)
  case Nil
  then show ?case by simp
next
  case (Cons c cs)
  then show ?case
    by (auto simp: assms(2) split: option.splits)
qed

lemma those_list_all2:
  "those (map f cs) = Some xs \<Longrightarrow> list_all2 (\<lambda>c x. f c = Some x) cs xs"
  by (induction cs arbitrary: xs) (auto split: option.splits)

lemma z_array_patch:
  assumes "z_array_max n (z_array candidate_schema_bbox_optional) (JArr cs) = Some xs"
  shows "z_array_max n (z_array candidate_schema) (JArr (map patch_candidate cs)) = Some xs"
proof -
  from assms have t: "those (map candidate_schema_bbox_optional cs) = Some xs"
    and l: "length xs \<le> n"
    by (auto simp: z_array_max_def z_refine_def z_array_def split: option.splits if_splits)
  have "those (map (candidate_schema \<circ> patch_candidate) cs) = Some xs"
    using t by (rule those_map_patch) (rule candidate_schema_patch)
  then show ?thesis
    using l by (simp add: z_array_max_def z_refine_def z_array_def)
qed

lemma lenient_is_object:
  assumes "VisionSchema_bbox_optional n raw = Some r"
  obtains kvs cs where "raw = JObj kvs" and "map_of kvs ''candidates'' = Some (JArr cs)"
proof -
  from assms obtain kvs where raw: "raw = JObj kvs"
    by (cases raw) (simp_all add: VisionSchema_bbox_optional_def z_object_def)
  from assms raw obtain cj where cj: "map_of kvs ''candidates'' = Some cj"
    and ok: "z_array_max n (z_array candidate_schema_bbox_optional) cj \<noteq> None"
    by (auto simp: VisionSchema_bbox_optional_def z_object_def z_required_def
          bind_eq_Some_conv split: option.splits)
  from ok obtain cs where "cj = JArr cs"
    by (cases cj) (simp_all add: z_array_max_def z_refine_def z_array_def)
  with raw cj show ?thesis using that by blast
qed

lemma patchVisionPayload_obj:
  assumes "map_of kvs ''candidates'' = Some (JArr cs)"
  shows "patchVisionPayload (JObj kvs)
           = JObj (AList.update ''candidates'' (JArr (map patch_candidate cs)) kvs)"
  using assms by (simp add: patchVisionPayload_def)

lemma VisionSchema_patch:
  assumes "VisionSchema_bbox_optional n raw = Some r"
  shows "VisionSchema n (patchVisionPayload raw) = Some r"
proof -
  from assms obtain kvs cs where raw: "raw = JObj kvs"
    and cs: "map_of kvs ''candidates'' = Some (JArr cs)"
    by (rule lenient_is_object)
  from assms raw cs obtain xs where
    xs: "z_array_max n (z_array candidate_schema_bbox_optional) (JArr cs) = Some xs"
    by (auto simp: VisionSchema_bbox_optional_def z_object_def z_required_def
          bind_eq_Some_conv split: option.splits)
  have xs': "z_array_max n (z_array candidate_schema) (JArr (map patch_candidate cs)) = Some xs"
    using xs by (rule z_array_patch)
  have c1: "z_required kvs ''candidates'' (z_array_max n (z_array candidate_schema_bbox_optional))
              = Some xs"
    using cs xs by (simp add: z_required_def)
  show ?thesis
    using assms
    by (simp add: raw patchVisionPayload_obj [OF cs] VisionSchema_def
          VisionSchema_bbox_optional_def z_object_def z_required_update xs' c1)
qed

lemma lenient_candidate_bbox:
  assumes "candidate_schema_bbox_optional c = Some vc"
  shows "\<exists>kvs. c = JObj kvs"
    and "lacks_bbox c \<Longrightarrow> vc_bbox vc = None"
    and "get_prop (patch_candidate c) ''bbox''
           = Some (case get_prop c ''bbox'' of None \<Rightarrow> JNull | Some v \<Rightarrow> v)"
proof -
  from assms obtain kvs where c: "c = JObj kvs"
    by (cases c) (simp_all add: candidate_schema_bbox_optional_def z_object_def)
  then show "\<exists>kvs. c = JObj kvs" by blast
  show "get_prop (patch_candidate c) ''bbox''
           = Some (case get_prop c ''bbox'' of None \<Rightarrow> JNull | Some v \<Rightarrow> v)"
    by (simp add: c patch_candidate_obj update_conv')
  show "vc_bbox vc = None" if "lacks_bbox c"
    using that assms
    by (auto simp: c lacks_bbox_def candidate_schema_bbox_optional_def z_object_def
          z_optional_def bind_eq_Some_conv)
qed

text \<open>
  C5. Let a payload conform to the detection schema except that candidates may lack the
  \<open>bbox\<close> key (it passes \<open>VisionSchema_bbox_optional\<close>, which reads it as the typed
  result \<open>r\<close>). Then the patched payload passes the strict \<open>VisionSchema\<close> with the same
  typed result; in the patched payload every candidate that lacked the key has
  \<open>bbox = null\<close> and every other candidate keeps its \<open>bbox\<close>; and in the typed result
  the candidates that lacked the key have a null \<open>bbox\<close>.
\<close>

theorem C5_patch_then_validate:
  assumes "VisionSchema_bbox_optional n raw = Some r"
  shows "VisionSchema n (patchVisionPayload raw) = Some r
         \<and> list_all2 (\<lambda>c c'. get_prop c' ''bbox''
                                 = (if lacks_bbox c then Some JNull else get_prop c ''bbox''))
             (payload_candidates raw) (payload_candidates (patchVisionPayload raw))
         \<and> list_all2 (\<lambda>c vc. if lacks_bbox c then vc_bbox vc = None else True)
             (payload_candidates raw) (vr_candidates r)"
proof -
  from assms obtain kvs cs where raw: "raw = JObj kvs"
    and cs: "map_of kvs ''candidates'' = Some (JArr cs)"
    by (rule lenient_is_object)
  from assms raw cs have "z_array_max n (z_array candidate_schema_bbox_optional) (JArr cs)
                            = Some (vr_candidates r)"
    by (auto simp: VisionSchema_bbox_optional_def z_object_def z_required_def
          bind_eq_Some_conv split: option.splits)
  then have "those (map candidate_schema_bbox_optional cs) = Some (vr_candidates r)"
    by (auto simp: z_array_max_def z_refine_def z_array_def split: option.splits if_splits)
  then have typed:
    "list_all2 (\<lambda>c vc. candidate_schema_bbox_optional c = Some vc) cs (vr_candidates r)"
    by (rule those_list_all2)
  have before: "payload_candidates raw = cs"
    by (simp add: payload_candidates_def raw cs)
  have after: "payload_candidates (patchVisionPayload raw) = map patch_candidate cs"
    by (simp add: payload_candidates_def raw patchVisionPayload_obj [OF cs] update_conv')
  have each: "get_prop (patch_candidate c) ''bbox''
                = (if lacks_bbox c then Some JNull else get_prop c ''bbox'')"
    if "c \<in> set cs" for c
  proof -
    from typed that obtain vc where "candidate_schema_bbox_optional c = Some vc"
      by (auto simp: list_all2_conv_all_nth in_set_conv_nth)
    from lenient_candidate_bbox(3) [OF this] show ?thesis
      by (auto simp: lacks_bbox_def split: option.splits)
  qed
  have json_level: "list_all2 (\<lambda>c c'. get_prop c' ''bbox''
                                 = (if lacks_bbox c then Some JNull else get_prop c ''bbox''))
             cs (map patch_candidate cs)"
    using each by (simp add: list_all2_map2 list_all2_same)
  have typed_level: "list_all2 (\<lambda>c vc. if lacks_bbox c then vc_bbox vc = None else True)
             cs (vr_candidates r)"
    using typed by (rule list_all2_mono) (simp add: lenient_candidate_bbox(2))
  show ?thesis
    using VisionSchema_patch [OF assms] json_level typed_level by (simp add: before after)
qed

lemma sample_payload_lenient:
  "VisionSchema_bbox_optional 8 sample_payload = Some sample_payload_result"
  by (simp add: sample_payload_def sample_payload_result_def VisionSchema_bbox_optional_def
        candidate_schema_bbox_optional_def image_quality_schema_def bbox_schema_def zod_defs)

lemma sample_payload_strict: "VisionSchema 8 sample_payload = None"
  by (simp add: sample_payload_def VisionSchema_def candidate_schema_def zod_defs)

text \<open>
  The sample payload is rejected by the strict schema as it is, and accepted once
  patched, its first candidate then carrying \<open>bbox = null\<close>.
\<close>

theorem C5_patch_then_validate_witness:
  "VisionSchema 8 sample_payload = None
   \<and> VisionSchema 8 (patchVisionPayload sample_payload) = Some sample_payload_result
   \<and> map (\<lambda>c. get_prop c ''bbox'') (payload_candidates (patchVisionPayload sample_payload))
       = [Some JNull,
          Some (JObj [(''x'', JNum 0.9), (''y'', JNum 0.9), (''w'', JNum 0.5), (''h'', JNum 0.5)])]"
proof -
  have "VisionSchema 8 (patchVisionPayload sample_payload) = Some sample_payload_result"
    using C5_patch_then_validate [OF sample_payload_lenient] by simp
  moreover have "map (\<lambda>c. get_prop c ''bbox'')
                   (payload_candidates (patchVisionPayload sample_payload))
       = [Some JNull,
          Some (JObj [(''x'', JNum 0.9), (''y'', JNum 0.9), (''w'', JNum 0.5), (''h'', JNum 0.5)])]"
    by (simp add: sample_payload_def patchVisionPayload_def payload_candidates_def
          patch_candidate_def)
  ultimately show ?thesis
    using sample_payload_strict by simp
qed

section \<open>Properties of the model response parser\<close>

lemma indexOf_first: "c \<notin> set pre \<Longrightarrow> indexOf (pre @ c # rest) c = int (length pre)"
  by (induction pre) (auto simp: Let_def)

lemma lastIndexOf_absent: "c \<notin> set s \<Longrightarrow> lastIndexOf s c = -1"
  by (induction s) (auto simp: Let_def)

lemma lastIndexOf_last:
  "c \<notin> set post \<Longrightarrow> lastIndexOf (xs @ c # post) c = int (length xs)"
  by (induction xs) (simp_all add: Let_def lastIndexOf_absent)

lemma slice_middle:
  "slice (pre @ mid @ post) (int (length pre)) (int (length pre) + int (length mid)) = mid"
  by (simp add: slice_def Let_def)

lemma parse_embedded: \<open>JSON_parse_ascii ''{"a": 1}'' = Inr (JObj [(''a'', JNum 1)])\<close>
  by code_simp

lemma parse_prose:
  \<open>JSON_parse_ascii ''Here is the result: {"a": 1} Hope it helps!'' = Inl SyntaxError\<close>
  by code_simp

lemma parse_braces: \<open>JSON_parse_ascii ''Use {braces}: {"a": 1}'' = Inl SyntaxError\<close>
  by code_simp

lemma parse_braces_slice: \<open>JSON_parse_ascii ''{braces}: {"a": 1}'' = Inl SyntaxError\<close>
  by code_simp

lemma parse_braces_prose: \<open>JSON_parse_ascii ''Use {braces}: '' = Inl SyntaxError\<close>
  by code_simp

lemma embedded_braces: \<open>embedded_objects ''Use {braces}: {"a": 1}'' = [''{"a": 1}'']\<close>
  by code_simp

lemma embedded_prose:
  \<open>embedded_objects ''Here is the result: {"a": 1} Hope it helps!'' = [''{"a": 1}'']\<close>
  by code_simp

text \<open>
  C4 (as stated, refuted). The text \<open>Use {braces}: {"a": 1}\<close> contains exactly one
  well-formed JSON object, \<open>{"a": 1}\<close>, after the prose \<open>Use {braces}: \<close>, which is
  not JSON. The full parse fails, the substring from the first \<open>{\<close> to the last
  \<open>}\<close> is \<open>{braces}: {"a": 1}\<close>, and parsing it throws: the result is an exception,
  not the value of the embedded object.
\<close>

theorem C4_safeParse_counterexample:
  \<open>embedded_objects ''Use {braces}: {"a": 1}'' = [''{"a": 1}'']
   \<and> ''Use {braces}: {"a": 1}'' = ''Use {braces}: '' @ ''{"a": 1}''
   \<and> JSON_parse_ascii ''Use {braces}: '' = Inl SyntaxError
   \<and> JSON_parse_ascii ''{"a": 1}'' = Inr (JObj [(''a'', JNum 1)])
   \<and> safeParseJsonFromModel JSON_parse_ascii ''Use {braces}: {"a": 1}'' = Inl SyntaxError\<close>
  by (simp add: safeParseJsonFromModel_def parse_embedded parse_braces slice_def
        parse_braces_slice parse_braces_prose embedded_braces)

text \<open>
  C4 (amended). Let the text be \<open>pre + obj + post\<close>, where \<open>obj\<close> begins with \<open>{\<close>
  and ends with \<open>}\<close>, \<open>pre\<close> contains no \<open>{\<close> and \<open>post\<close> contains no \<open>}\<close>.
  Then, for every behaviour of \<open>JSON.parse\<close>, \<open>safeParseJsonFromModel\<close> returns the
  full parse of the text when that succeeds, and otherwise exactly what \<open>JSON.parse\<close>
  gives on \<open>obj\<close> (its value, or its exception).
\<close>

theorem C4_safeParse_amended:
  assumes obj: "obj = CHR ''{'' # body @ [CHR ''}'']"
    and pre: "CHR ''{'' \<notin> set pre"
    and post: "CHR ''}'' \<notin> set post"
  shows "safeParseJsonFromModel P (pre @ obj @ post)
           = (case P (pre @ obj @ post) of Inr v \<Rightarrow> Inr v | Inl e \<Rightarrow> P obj)"
proof -
  have first_i: "indexOf (pre @ obj @ post) CHR ''{'' = int (length pre)"
    using pre by (simp add: obj indexOf_first)
  have "lastIndexOf ((pre @ CHR ''{'' # body) @ CHR ''}'' # post) CHR ''}''
          = int (length (pre @ CHR ''{'' # body))"
    using post by (rule lastIndexOf_last)
  then have last_i:
    "lastIndexOf (pre @ obj @ post) CHR ''}'' = int (length pre) + int (length body) + 1"
    by (simp add: obj)
  have "slice (pre @ obj @ post) (int (length pre)) (int (length pre) + int (length obj)) = obj"
    by (rule slice_middle)
  moreover have "int (length pre) + int (length obj)
                   = int (length pre) + int (length body) + 1 + 1"
    by (simp add: obj)
  ultimately have sl: "slice (pre @ obj @ post) (int (length pre))
                         (int (length pre) + int (length body) + 1 + 1) = obj"
    by simp
  have guard: "indexOf (pre @ obj @ post) CHR ''{'' \<ge> 0
               \<and> lastIndexOf (pre @ obj @ post) CHR ''}'' > indexOf (pre @ obj @ post) CHR ''{''"
    by (simp add: first_i last_i)
  show ?thesis
    unfolding safeParseJsonFromModel_def Let_def
    by (simp only: guard if_True first_i last_i sl split: sum.splits) simp
qed

text \<open>
  A text with one embedded object between two pieces of prose free of braces: the object
  is recovered.
\<close>

theorem C4_safeParse_amended_witness:
  \<open>embedded_objects ''Here is the result: {"a": 1} Hope it helps!'' = [''{"a": 1}'']
   \<and> safeParseJsonFromModel JSON_parse_ascii ''Here is the result: {"a": 1} Hope it helps!''
       = Inr (JObj [(''a'', JNum 1)])
   \<and> JSON_parse_ascii ''{"a": 1}'' = Inr (JObj [(''a'', JNum 1)])\<close>
  using C4_safeParse_amended [of \<open>''{"a": 1}''\<close> \<open>''"a": 1''\<close> \<open>''Here is the result: ''\<close>
      \<open>'' Hope it helps!''\<close> JSON_parse_ascii]
  by (simp add: parse_prose parse_embedded embedded_prose)

section \<open>Neither stage throws\<close>

lemma runVision_catch_shape:
  "vr_candidates (runVision_catch rid err) = []
   \<and> map err_code (vr_errors (runVision_catch rid err)) = [''VISION_UPSTREAM_ERROR'']"
  by (simp add: runVision_catch_def vision_failure_def Let_def)

lemma vision_failure_shape:
  "vr_candidates (vision_failure rid c m) = []
   \<and> map err_code (vr_errors (vision_failure rid c m)) = [c]"
  by (simp add: vision_failure_def)

lemma ranking_failure_shape:
  "rr_request_id (ranking_failure rid p c m) = rid
   \<and> rr_profile_used (ranking_failure rid p c m) = p
   \<and> rr_ranked (ranking_failure rid p c m) = [] \<and> rr_avoid (ranking_failure rid p c m) = []
   \<and> rr_fallback_needed (ranking_failure rid p c m)
   \<and> map err_code (rr_errors (ranking_failure rid p c m)) = [c]"
  by (simp add: ranking_failure_def)

text \<open>
  C7. For every configuration, every behaviour of the upstream call, of \<open>JSON.parse\<close>
  and of the other externals, and every input, \<open>runVision\<close> and \<open>runRanking\<close> return
  a result value (\<open>Inr\<close>: the promise resolves). In live mode a failed upstream call
  and an unparseable text both give no candidates and the single error
  \<open>VISION_UPSTREAM_ERROR\<close>, a payload the schema rejects gives no candidates and the
  single error \<open>VISION_SCHEMA_INVALID\<close>. \<open>runRanking\<close> echoes the request id and the
  profile, and each of its failure paths (vision failed, mock object rejected by its own
  schema, live ranking not enabled) gives empty \<open>ranked\<close> and \<open>avoid\<close>,
  \<open>fallback_needed\<close> and a single error with the code of that path.
\<close>

theorem C7_stages_never_throw:
  "(\<exists>r. fst (runVision e ext args) = Inr r
        \<and> (\<not> MOCK_VISION e \<and> \<not> openai_is_null e \<longrightarrow>
            (\<forall>err. responses_create ext (vision_request e (randomUUID ext) args) = Inl err \<longrightarrow>
               vr_candidates r = [] \<and> map err_code (vr_errors r) = [''VISION_UPSTREAM_ERROR''])
          \<and> (\<forall>rawText err.
               responses_create ext (vision_request e (randomUUID ext) args) = Inr rawText
               \<and> safeParseJsonFromModel (JSON_parse ext) rawText = Inl err \<longrightarrow>
               vr_candidates r = [] \<and> map err_code (vr_errors r) = [''VISION_UPSTREAM_ERROR''])
          \<and> (\<forall>rawText parsed.
               responses_create ext (vision_request e (randomUUID ext) args) = Inr rawText
               \<and> safeParseJsonFromModel (JSON_parse ext) rawText = Inr parsed
               \<and> VisionSchema (VISION_MAX_CANDIDATES e) (patchVisionPayload parsed) = None \<longrightarrow>
               vr_candidates r = [] \<and> map err_code (vr_errors r) = [''VISION_SCHEMA_INVALID''])))
   \<and> (\<exists>r. fst (runRanking e ext requestId profile cands specsByName visionFailed) = Inr r
        \<and> rr_request_id r = requestId \<and> rr_profile_used r = profile
        \<and> (visionFailed \<longrightarrow>
              rr_ranked r = [] \<and> rr_avoid r = [] \<and> rr_fallback_needed r
              \<and> map err_code (rr_errors r) = [''VISION_UNAVAILABLE''])
        \<and> (\<not> visionFailed \<and> (MOCK_RANKING e \<or> openai_is_null e)
              \<and> RankingSchema (js_of_recommendations (mock_result requestId profile cands)) = None \<longrightarrow>
              rr_ranked r = [] \<and> rr_avoid r = [] \<and> rr_fallback_needed r
              \<and> map err_code (rr_errors r) = [''MOCK_RANK_SCHEMA_INVALID''])
        \<and> (\<not> visionFailed \<and> \<not> MOCK_RANKING e \<and> \<not> openai_is_null e \<longrightarrow>
              rr_ranked r = [] \<and> rr_avoid r = [] \<and> rr_fallback_needed r
              \<and> map err_code (rr_errors r) = [''RANKING_NOT_ENABLED'']))"
proof (rule conjI)
  let ?req = "vision_request e (randomUUID ext) args"
  show "\<exists>r. fst (runVision e ext args) = Inr r
        \<and> (\<not> MOCK_VISION e \<and> \<not> openai_is_null e \<longrightarrow>
            (\<forall>err. responses_create ext ?req = Inl err \<longrightarrow>
               vr_candidates r = [] \<and> map err_code (vr_errors r) = [''VISION_UPSTREAM_ERROR''])
          \<and> (\<forall>rawText err.
               responses_create ext ?req = Inr rawText
               \<and> safeParseJsonFromModel (JSON_parse ext) rawText = Inl err \<longrightarrow>
               vr_candidates r = [] \<and> map err_code (vr_errors r) = [''VISION_UPSTREAM_ERROR''])
          \<and> (\<forall>rawText parsed.
               responses_create ext ?req = Inr rawText
               \<and> safeParseJsonFromModel (JSON_parse ext) rawText = Inr parsed
               \<and> VisionSchema (VISION_MAX_CANDIDATES e) (patchVisionPayload parsed) = None \<longrightarrow>
               vr_candidates r = [] \<and> map err_code (vr_errors r) = [''VISION_SCHEMA_INVALID'']))"
  proof (cases "MOCK_VISION e \<or> openai_is_null e")
    case True
    then show ?thesis by (auto simp: runVision_def Let_def)
  next
    case False
    then show ?thesis
      by (auto simp: runVision_def runVision_try_def Let_def runVision_catch_shape
            vision_failure_shape split: sum.splits option.splits)
  qed
next
  show "\<exists>r. fst (runRanking e ext requestId profile cands specsByName visionFailed) = Inr r
        \<and> rr_request_id r = requestId \<and> rr_profile_used r = profile
        \<and> (visionFailed \<longrightarrow>
              rr_ranked r = [] \<and> rr_avoid r = [] \<and> rr_fallback_needed r
              \<and> map err_code (rr_errors r) = [''VISION_UNAVAILABLE''])
        \<and> (\<not> visionFailed \<and> (MOCK_RANKING e \<or> openai_is_null e)
              \<and> RankingSchema (js_of_recommendations (mock_result requestId profile cands)) = None \<longrightarrow>
              rr_ranked r = [] \<and> rr_avoid r = [] \<and> rr_fallback_needed r
              \<and> map err_code (rr_errors r) = [''MOCK_RANK_SCHEMA_INVALID''])
        \<and> (\<not> visionFailed \<and> \<not> MOCK_RANKING e \<and> \<not> openai_is_null e \<longrightarrow>
              rr_ranked r = [] \<and> rr_avoid r = [] \<and> rr_fallback_needed r
              \<and> map err_code (rr_errors r) = [''RANKING_NOT_ENABLED''])"
    by (auto simp: runRanking_def Let_def ranking_failure_shape mock_result_def
          split: option.splits)
qed

lemma live_env_live: "\<not> MOCK_VISION live_env \<and> \<not> openai_is_null live_env"
  by (simp add: live_env_def openai_is_null_def)

lemma sample_externals_simps:
  "responses_create (sample_externals u) req = u"
  "JSON_parse (sample_externals u) = JSON_parse_ascii"
  by (simp_all add: sample_externals_def)

lemma parse_no_json: "JSON_parse_ascii ''I cannot identify any shoes.'' = Inl SyntaxError"
  by code_simp

lemma safeParse_no_json:
  "safeParseJsonFromModel JSON_parse_ascii ''I cannot identify any shoes.''
     = Inl (new_Error ''Model output is not valid JSON'')"
  by (simp add: safeParseJsonFromModel_def parse_no_json)

lemma parse_wrong_shape:
  \<open>JSON_parse_ascii ''{"request_id": 7}'' = Inr (JObj [(''request_id'', JNum 7)])\<close>
  by code_simp

lemma safeParse_wrong_shape:
  \<open>safeParseJsonFromModel JSON_parse_ascii ''{"request_id": 7}''
     = Inr (JObj [(''request_id'', JNum 7)])\<close>
  by (simp add: safeParseJsonFromModel_def parse_wrong_shape)

lemma wrong_shape_rejected:
  "VisionSchema (VISION_MAX_CANDIDATES live_env)
     (patchVisionPayload (JObj [(''request_id'', JNum 7)])) = None"
  by (simp add: patchVisionPayload_def VisionSchema_def z_object_def z_required_def z_string_def)

lemma negative_mileage_rejected:
  "RankingSchema (js_of_recommendations
     (mock_result ''req-1'' \<lparr>arch_type = ''normal'', usage = ''road'', weekly_mileage = -1\<rparr> []))
   = None"
  by (simp add: mock_result_def mock_ranked_def RankingSchema_def js_of_recommendations_def
        js_of_profile_def profile_schema_def z_object_def z_required_def z_string_def
        z_enum_def z_min_def z_int_def z_refine_def z_number_def isInteger_minus_one)

text \<open>
  One run per failure mode: the upstream call throws a rate-limit error; the model
  answers with prose; the model answers with JSON of the wrong shape; the mock ranking
  receives a profile that its own schema rejects.
\<close>

theorem C7_stages_never_throw_witness:
  \<open>(\<exists>r. fst (runVision live_env (sample_externals (Inl rate_limit_error)) sample_args) = Inr r
        \<and> vr_candidates r = [] \<and> map err_code (vr_errors r) = [''VISION_UPSTREAM_ERROR''])
   \<and> (\<exists>r. fst (runVision live_env (sample_externals (Inr ''I cannot identify any shoes.''))
                 sample_args) = Inr r
        \<and> vr_candidates r = [] \<and> map err_code (vr_errors r) = [''VISION_UPSTREAM_ERROR''])
   \<and> (\<exists>r. fst (runVision live_env (sample_externals (Inr ''{"request_id": 7}''))
                 sample_args) = Inr r
        \<and> vr_candidates r = [] \<and> map err_code (vr_errors r) = [''VISION_SCHEMA_INVALID''])
   \<and> (\<exists>r. fst (runRanking default_env (sample_externals (Inr [])) ''req-1''
                 \<lparr>arch_type = ''normal'', usage = ''road'', weekly_mileage = -1\<rparr> [] [] False) = Inr r
        \<and> rr_ranked r = [] \<and> rr_avoid r = [] \<and> rr_fallback_needed r
        \<and> map err_code (rr_errors r) = [''MOCK_RANK_SCHEMA_INVALID''])\<close>
proof (intro conjI)
  show "\<exists>r. fst (runVision live_env (sample_externals (Inl rate_limit_error)) sample_args) = Inr r
        \<and> vr_candidates r = [] \<and> map err_code (vr_errors r) = [''VISION_UPSTREAM_ERROR'']"
    using C7_stages_never_throw
        [of live_env "sample_externals (Inl rate_limit_error)" sample_args]
      live_env_live
    by (auto simp: sample_externals_simps)
  show "\<exists>r. fst (runVision live_env (sample_externals (Inr ''I cannot identify any shoes.''))
                 sample_args) = Inr r
        \<and> vr_candidates r = [] \<and> map err_code (vr_errors r) = [''VISION_UPSTREAM_ERROR'']"
    using C7_stages_never_throw
        [of live_env "sample_externals (Inr ''I cannot identify any shoes.'')" sample_args]
      live_env_live
    by (auto simp: sample_externals_simps safeParse_no_json)
  show \<open>\<exists>r. fst (runVision live_env (sample_externals (Inr ''{"request_id": 7}''))
                 sample_args) = Inr r
        \<and> vr_candidates r = [] \<and> map err_code (vr_errors r) = [''VISION_SCHEMA_INVALID'']\<close>
    using C7_stages_never_throw
        [of live_env \<open>sample_externals (Inr ''{"request_id": 7}'')\<close> sample_args]
      live_env_live
    by (auto simp: sample_externals_simps safeParse_wrong_shape wrong_shape_rejected)
  show "\<exists>r. fst (runRanking default_env (sample_externals (Inr [])) ''req-1''
                 \<lparr>arch_type = ''normal'', usage = ''road'', weekly_mileage = -1\<rparr> [] [] False) = Inr r
        \<and> rr_ranked r = [] \<and> rr_avoid r = [] \<and> rr_fallback_needed r
        \<and> map err_code (rr_errors r) = [''MOCK_RANK_SCHEMA_INVALID'']"
    using C7_stages_never_throw
        [of default_env "sample_externals (Inr [])" sample_args "''req-1''"
          "\<lparr>arch_type = ''normal'', usage = ''road'', weekly_mileage = -1\<rparr>" "[]" "[]" False]
      negative_mileage_rejected
    by (auto simp: default_env_def)
qed

section \<open>Properties of the overlay renderer\<close>











section \<open>An end-to-end run of the live path\<close>

text \<open>
  The model answers with a sentence of prose followed by a payload whose first candidate
  omits \<open>bbox\<close> and whose second has a box at the right edge. The text is recovered,
  patched, validated and normalized: the first candidate ends with a null bbox and
  the advisory error counts it, the second with the minimum width.
\<close>

lemma live_pipeline_example:
  \<open>fst (runVision live_env
     (sample_externals (Inr ''Sure! {"request_id":"r1","candidates":[{"raw_label":"Nike Pegasus 40","brand":"Nike","model":"Pegasus 40","confidence":0.8},{"raw_label":"x","brand":null,"model":null,"confidence":0.2,"bbox":{"x":1,"y":0.5,"w":0.5,"h":0.9}}],"image_quality":{"lighting":"good","blur":"none","occlusion":"none"},"errors":[]}''))
     sample_args)
   = Inr \<lparr>vr_request_id = ''r1'',
       vr_candidates =
         [\<lparr>vc_raw_label = ''Nike Pegasus 40'', vc_brand = Some ''Nike'',
           vc_model = Some ''Pegasus 40'', vc_confidence = 0.8, vc_bbox = None,
           vc_notes = None\<rparr>,
          \<lparr>vc_raw_label = ''x'', vc_brand = None, vc_model = None, vc_confidence = 0.2,
           vc_bbox = Some \<lparr>bbox_x = 1, bbox_y = 0.5, bbox_w = 0.01, bbox_h = 0.5\<rparr>,
           vc_notes = None\<rparr>],
       vr_image_quality = \<lparr>iq_lighting = ''good'', iq_blur = ''none'', iq_occlusion = ''none''\<rparr>,
       vr_errors = [\<lparr>err_code = ''VISION_PARTIAL_BBOX'',
                     err_message = ''1 candidate(s) missing bbox due to ambiguity or occlusion.''\<rparr>]\<rparr>\<close>
  by code_simp

end
